theory Spec2Isabelle
  imports Main
begin

section \<open>The image-generation route of cf-flux-remix\<close>

text \<open>
  The development embeds \<^verbatim>\<open>app/routes/generate-image.tsx\<close>: the route's
  \<^verbatim>\<open>loader\<close>, its \<^verbatim>\<open>action\<close> and the submit guard of the
  \<^verbatim>\<open>GenerateImage\<close> component.

  Conventions.
  \<^item> A JavaScript string is a \<open>string\<close> holding its UTF-8 bytes; the Chinese messages of
    the source are written out byte by byte. Concatenation and equality of well-formed
    strings are the same on both sides.
  \<^item> \<^verbatim>\<open>null\<close> is \<open>None\<close>.
  \<^item> An awaited call either returns, throws, or never settles (\<open>Hangs\<close>); the handlers
    have the same three outcomes.
  \<^item> Everything a handler does to the outside (console output, calls of the image
    generation service) is recorded, in order, in the \<open>trace\<close> of its run.
\<close>

subsection \<open>Values of the platform\<close>

text \<open>
  A JavaScript number as far as \<^verbatim>\<open>parseInt\<close> can return one: \<^verbatim>\<open>NaN\<close>, an
  integer that is a double (\<open>Num 0\<close> is \<^verbatim>\<open>+0\<close>), \<^verbatim>\<open>-0\<close>, or an infinity.
\<close>

datatype js_number = NaN | Num int | NegZero | PosInfinity | NegInfinity

text \<open>
  What a property lookup on the catalog can give: \<^verbatim>\<open>undefined\<close>, the string of an
  entry, or the member of \<^verbatim>\<open>Object.prototype\<close> of the given name (a function, or
  the prototype itself for \<^verbatim>\<open>__proto__\<close>).
\<close>

datatype js_value = Undefined | Str string | Inherited string

text \<open>
  Modelled from the spec: the class \<^verbatim>\<open>AppError\<close> is imported from
  \<^verbatim>\<open>../utils/error\<close>, which is not among the sources; the spec has it as a typed
  application error carrying an optional status code, and the action reads its
  \<^verbatim>\<open>message\<close> and \<^verbatim>\<open>status\<close>. \<^verbatim>\<open>RangeError\<close> and
  \<^verbatim>\<open>TypeError\<close> are what the \<^verbatim>\<open>Response\<close> constructor throws;
  \<open>OtherError\<close> is any other thrown value.
\<close>

datatype thrown = AppError string "nat option" | RangeError | TypeError | OtherError

datatype 'a completion = Returns 'a | Throws thrown | Hangs

text \<open>
  Modelled from the spec: \<^verbatim>\<open>GenerationResult\<close>, the object the service resolves
  with, is declared with the service outside the sources; its fields are those the spec
  lists and the component reads from the action's data.
\<close>

record generation_result =
  image :: string
  prompt :: string
  translatedPrompt :: string

text \<open>
  The trace: \<^verbatim>\<open>console.log\<close> and \<^verbatim>\<open>console.error\<close> with their first
  argument (the label), and the two service calls; \<open>GenerateImage\<close> holds the four
  arguments of the call in the order of the source: prompt, model, size, numSteps.
\<close>

datatype event =
    ConsoleLog string
  | ConsoleError string
  | TestCfAiConnection
  | GenerateImage string js_value "string option" js_number

record 'a run =
  outcome :: "'a completion"
  trace :: "event list"

subsection \<open>The application context\<close>

text \<open>
  Modelled from the spec: \<^verbatim>\<open>createAppContext(context)\<close> lives in
  \<^verbatim>\<open>../context\<close>, which is not among the sources; what it returns is a parameter
  here, with the parts the route uses. The configuration holds the catalog
  \<^verbatim>\<open>CUSTOMER_MODEL_MAP\<close>, a mapping from model ids to backend model identifiers,
  and the default step count. The catalog is an ordinary object, given by its own
  entries in enumeration order (the order of \<^verbatim>\<open>Object.keys\<close>). The service has the
  two methods the route calls; the model it is handed is whatever the lookup gave.
  Every handler invocation calls a service method at most once, so a method is given by
  the outcome of that one call, as a function of the arguments.
\<close>

record config =
  CUSTOMER_MODEL_MAP :: "(string \<times> string) list"
  FLUX_NUM_STEPS :: int

record image_generation_service =
  testCfAiConnection :: "unit completion"
  generateImage :: "string \<Rightarrow> js_value \<Rightarrow> string option \<Rightarrow> js_number \<Rightarrow> generation_result completion"

record app_context =
  imageGenerationService :: image_generation_service
  app_config :: config

text \<open>The property names every ordinary object inherits from \<^verbatim>\<open>Object.prototype\<close>.\<close>

definition Object_prototype_keys :: "string list" where
  "Object_prototype_keys =
     [''constructor'', ''__defineGetter__'', ''__defineSetter__'', ''hasOwnProperty'',
      ''__lookupGetter__'', ''__lookupSetter__'', ''isPrototypeOf'',
      ''propertyIsEnumerable'', ''toString'', ''valueOf'', ''__proto__'',
      ''toLocaleString'']"

text \<open>
  \<^verbatim>\<open>obj[key]\<close> on the catalog: the value of the object's own entry; without one,
  what the prototype has under the key; \<^verbatim>\<open>undefined\<close> otherwise.
\<close>

definition catalog_get :: "(string \<times> string) list \<Rightarrow> string \<Rightarrow> js_value" where
  "catalog_get m k =
     (case map_of m k of
        Some v \<Rightarrow> Str v
      | None \<Rightarrow> if k \<in> set Object_prototype_keys then Inherited k else Undefined)"

text \<open>A property key is a string: \<^verbatim>\<open>null\<close> used as a key is \<^verbatim>\<open>"null"\<close>.\<close>

definition ToString :: "string option \<Rightarrow> string" where
  "ToString v = (case v of None \<Rightarrow> ''null'' | Some s \<Rightarrow> s)"

text \<open>\<^verbatim>\<open>!v\<close> on a string or \<^verbatim>\<open>null\<close>.\<close>

definition falsy :: "string option \<Rightarrow> bool" where
  "falsy v = (case v of None \<Rightarrow> True | Some s \<Rightarrow> s = [])"

text \<open>
  \<^verbatim>\<open>!v\<close> on the result of a lookup: \<^verbatim>\<open>undefined\<close> and the empty string are
  falsy, functions and objects are not.
\<close>

definition falsy_value :: "js_value \<Rightarrow> bool" where
  "falsy_value v = (case v of Undefined \<Rightarrow> True | Str s \<Rightarrow> s = [] | Inherited _ \<Rightarrow> False)"

subsection \<open>Form data\<close>

text \<open>
  The entries of the submitted form in order; \<^verbatim>\<open>formData.get(name)\<close> is the first
  value under the name, or \<^verbatim>\<open>null\<close>. The source casts every entry to a string, and
  the form has no file input.
\<close>

type_synonym form_data = "(string \<times> string) list"

definition formData_get :: "form_data \<Rightarrow> string \<Rightarrow> string option" where
  "formData_get fd name = map_of fd name"

subsection \<open>\<^verbatim>\<open>parseInt(string, 10)\<close>\<close>

text \<open>
  Leading white space and line terminators are skipped, a sign is read, then the longest
  run of decimal digits; no digit gives \<^verbatim>\<open>NaN\<close>. The white space characters of
  ECMAScript are listed by their UTF-8 bytes. The result is the Number for the signed
  value of the digits: the nearest double, ties to the even significand, an infinity
  beyond the largest double, and \<^verbatim>\<open>-0\<close> for a negative zero.
\<close>

definition StrWhiteSpaceChar :: "nat list list" where
  "StrWhiteSpaceChar =
     [[0x09], [0x0A], [0x0B], [0x0C], [0x0D], [0x20], [0xC2, 0xA0],
      [0xE1, 0x9A, 0x80],
      [0xE2, 0x80, 0x80], [0xE2, 0x80, 0x81], [0xE2, 0x80, 0x82], [0xE2, 0x80, 0x83],
      [0xE2, 0x80, 0x84], [0xE2, 0x80, 0x85], [0xE2, 0x80, 0x86], [0xE2, 0x80, 0x87],
      [0xE2, 0x80, 0x88], [0xE2, 0x80, 0x89], [0xE2, 0x80, 0x8A],
      [0xE2, 0x80, 0xA8], [0xE2, 0x80, 0xA9], [0xE2, 0x80, 0xAF],
      [0xE2, 0x81, 0x9F], [0xE3, 0x80, 0x80], [0xEF, 0xBB, 0xBF]]"

text \<open>The number of bytes of the white space character a string starts with, or 0.\<close>

definition ws_width :: "string \<Rightarrow> nat" where
  "ws_width s =
     (case find (\<lambda>w. take (length w) (map of_char s) = w) StrWhiteSpaceChar of
        None \<Rightarrow> 0
      | Some w \<Rightarrow> length w)"

lemma ws_width_nonempty: "0 < ws_width s \<Longrightarrow> 0 < length s"
  by (cases s) (simp_all add: ws_width_def StrWhiteSpaceChar_def)

text \<open>\<^verbatim>\<open>TrimString(inputString, start)\<close>: white space is dropped while the string starts with it.\<close>

function trimStart :: "string \<Rightarrow> string" where
  "trimStart s = (if ws_width s = 0 then s else trimStart (drop (ws_width s) s))"
  by pat_completeness auto
termination
proof (relation "measure length")
  show "wf (measure length)" by simp
next
  fix s :: string
  assume "ws_width s \<noteq> 0"
  then have "0 < ws_width s" by simp
  with ws_width_nonempty [of s] have "length s - ws_width s < length s" by arith
  then show "(drop (ws_width s) s, s) \<in> measure length" by simp
qed

definition is_digit :: "char \<Rightarrow> bool" where
  "is_digit c = (48 \<le> (of_char c :: nat) \<and> (of_char c :: nat) \<le> 57)"

definition digit_value :: "char \<Rightarrow> nat" where
  "digit_value c = of_char c - 48"

definition digits_value :: "string \<Rightarrow> nat" where
  "digits_value ds = foldl (\<lambda>acc c. 10 * acc + digit_value c) 0 ds"

text \<open>The number of binary digits of a natural number.\<close>

fun bit_length :: "nat \<Rightarrow> nat" where
  "bit_length n = (if n = 0 then 0 else Suc (bit_length (n div 2)))"

declare bit_length.simps [simp del]

text \<open>
  The double nearest to a natural number, \<open>None\<close> when the rounded value is beyond the
  largest double. Below \<open>2 ^ 53\<close> every natural number is a double. Above, the 53
  leading bits \<open>q\<close> are kept and the \<open>e\<close> bits \<open>r\<close> behind them are rounded: up when they
  are more than half a unit of \<open>q\<close>, or exactly half with \<open>q\<close> odd.
\<close>

definition to_double :: "nat \<Rightarrow> nat option" where
  "to_double n =
     (if n < 2 ^ 53 then Some n
      else
        let e = bit_length n - 53;
            q = n div 2 ^ e;
            r = n mod 2 ^ e;
            half = 2 ^ (e - 1);
            q' = (if half < r \<or> (r = half \<and> odd q) then q + 1 else q);
            v = q' * 2 ^ e
        in if 2 ^ 1024 \<le> v then None else Some v)"

text \<open>The Number for \<open>sign\<close> times \<open>mathInt\<close>, the last step of \<^verbatim>\<open>parseInt\<close>.\<close>

definition to_number :: "bool \<Rightarrow> nat \<Rightarrow> js_number" where
  "to_number negative mathInt =
     (if mathInt = 0 then (if negative then NegZero else Num 0)
      else
        case to_double mathInt of
          None \<Rightarrow> if negative then NegInfinity else PosInfinity
        | Some v \<Rightarrow> if negative then Num (- int v) else Num (int v))"

definition parseInt10 :: "string \<Rightarrow> js_number" where
  "parseInt10 inputString =
     (let S = trimStart inputString;
          negative = (case S of c # _ \<Rightarrow> c = CHR ''-'' | [] \<Rightarrow> False);
          S' = (case S of c # cs \<Rightarrow> if c = CHR ''+'' \<or> c = CHR ''-'' then cs else S
                | [] \<Rightarrow> S);
          Z = takeWhile is_digit S'
      in if Z = [] then NaN else to_number negative (digits_value Z))"

subsection \<open>Responses\<close>

record 'b response =
  status :: nat
  body :: 'b

text \<open>The statuses of a response that cannot have a body, among 200..599.\<close>

definition null_body_status :: "nat \<Rightarrow> bool" where
  "null_body_status s = (s = 204 \<or> s = 205 \<or> s = 304)"

text \<open>
  \<^verbatim>\<open>json(data, {status})\<close> builds \<^verbatim>\<open>new Response(JSON.stringify(data), ...)\<close>,
  always with a body. The constructor of the Fetch standard takes the status as an
  unsigned short (the number modulo \<open>2 ^ 16\<close>), throws a \<^verbatim>\<open>RangeError\<close> for a
  status outside 200..599, and a \<^verbatim>\<open>TypeError\<close> for a body with a status that
  cannot have one. Without a status the response is a 200.
\<close>

definition json :: "'b \<Rightarrow> nat \<Rightarrow> 'b response completion" where
  "json data st =
     (let s = st mod 2 ^ 16
      in if s < 200 \<or> 599 < s then Throws RangeError
         else if null_body_status s then Throws TypeError
         else Returns \<lparr>status = s, body = data\<rparr>)"

text \<open>The body of the action's response: \<^verbatim>\<open>{error}\<close> or the service's result.\<close>

datatype action_body = ErrorBody string | ResultBody generation_result

text \<open>The body of the loader's response: \<^verbatim>\<open>{models, config}\<close>.\<close>

record loader_data =
  models :: "(string \<times> js_value) list"
  loader_config :: config

subsection \<open>The messages of the source\<close>

text \<open>
  The string literals of the action, as UTF-8: the missing-prompt message, the
  invalid-model message, the prefix put before an \<^verbatim>\<open>AppError\<close>'s message, the
  generic failure message (the same prefix followed by "unknown error"), and the label
  of the \<^verbatim>\<open>console.error\<close> line.
\<close>

definition msg_no_prompt :: string where
  "msg_no_prompt =
     [CHR 0xE6, CHR 0x9C, CHR 0xAA, CHR 0xE6, CHR 0x89, CHR 0xBE, CHR 0xE5, CHR 0x88,
      CHR 0xB0, CHR 0xE6, CHR 0x8F, CHR 0x90, CHR 0xE7, CHR 0xA4, CHR 0xBA, CHR 0xE8,
      CHR 0xAF, CHR 0x8D]"

definition msg_invalid_model :: string where
  "msg_invalid_model =
     [CHR 0xE6, CHR 0x97, CHR 0xA0, CHR 0xE6, CHR 0x95, CHR 0x88, CHR 0xE7, CHR 0x9A,
      CHR 0x84, CHR 0xE6, CHR 0xA8, CHR 0xA1, CHR 0xE5, CHR 0x9E, CHR 0x8B]"

text \<open>The prefix of \<^verbatim>\<open>`... ${error.message}`\<close>, ending in a colon and a space.\<close>

definition msg_failed_prefix :: string where
  "msg_failed_prefix =
     [CHR 0xE7, CHR 0x94, CHR 0x9F, CHR 0xE6, CHR 0x88, CHR 0x90, CHR 0xE5, CHR 0x9B,
      CHR 0xBE, CHR 0xE7, CHR 0x89, CHR 0x87, CHR 0xE5, CHR 0xA4, CHR 0xB1, CHR 0xE8,
      CHR 0xB4, CHR 0xA5, CHR 0x3A, CHR 0x20]"

definition msg_unknown_error :: string where
  "msg_unknown_error =
     [CHR 0xE7, CHR 0x94, CHR 0x9F, CHR 0xE6, CHR 0x88, CHR 0x90, CHR 0xE5, CHR 0x9B,
      CHR 0xBE, CHR 0xE7, CHR 0x89, CHR 0x87, CHR 0xE5, CHR 0xA4, CHR 0xB1, CHR 0xE8,
      CHR 0xB4, CHR 0xA5, CHR 0x3A, CHR 0x20, CHR 0xE6, CHR 0x9C, CHR 0xAA, CHR 0xE7,
      CHR 0x9F, CHR 0xA5, CHR 0xE9, CHR 0x94, CHR 0x99, CHR 0xE8, CHR 0xAF, CHR 0xAF]"

definition log_generate_failed :: string where
  "log_generate_failed =
     [CHR 0xE7, CHR 0x94, CHR 0x9F, CHR 0xE6, CHR 0x88, CHR 0x90, CHR 0xE5, CHR 0x9B,
      CHR 0xBE, CHR 0xE7, CHR 0x89, CHR 0x87, CHR 0xE6, CHR 0x97, CHR 0xB6, CHR 0xE5,
      CHR 0x87, CHR 0xBA, CHR 0xE9, CHR 0x94, CHR 0x99, CHR 0x3A]"

text \<open>The marker of the template \<^verbatim>\<open>`---tl ${prompt}`\<close>.\<close>

definition enhancement_marker :: string where
  "enhancement_marker = ''---tl ''"

subsection \<open>The action\<close>

text \<open>
  The \<^verbatim>\<open>catch\<close> block of the action: an \<^verbatim>\<open>AppError\<close> gives its message
  behind the fixed prefix, with \<^verbatim>\<open>error.status || 500\<close> (an absent status and 0 are
  falsy); anything else gives the fixed message with 500.
\<close>

definition status_or_500 :: "nat option \<Rightarrow> nat" where
  "status_or_500 st = (case st of None \<Rightarrow> 500 | Some s \<Rightarrow> if s = 0 then 500 else s)"

definition failure_response :: "thrown \<Rightarrow> action_body response completion" where
  "failure_response err =
     (case err of
        AppError message st \<Rightarrow> json (ErrorBody (msg_failed_prefix @ message)) (status_or_500 st)
      | RangeError \<Rightarrow> json (ErrorBody msg_unknown_error) 500
      | TypeError \<Rightarrow> json (ErrorBody msg_unknown_error) 500
      | OtherError \<Rightarrow> json (ErrorBody msg_unknown_error) 500)"

text \<open>
  The \<^verbatim>\<open>try\<close> statement: the one call of \<^verbatim>\<open>generateImage\<close>, awaited. \<open>logged\<close>
  is what the action has written to the console before.
\<close>

definition dispatch ::
  "image_generation_service \<Rightarrow> event list \<Rightarrow> string \<Rightarrow> js_value \<Rightarrow> string option \<Rightarrow> js_number
     \<Rightarrow> action_body response run" where
  "dispatch svc logged p model sz numSteps =
     (case generateImage svc p model sz numSteps of
        Returns result \<Rightarrow>
          \<lparr>outcome = json (ResultBody result) 200,
           trace = logged @ [GenerateImage p model sz numSteps,
                             ConsoleLog ''Image generation successful'']\<rparr>
      | Throws err \<Rightarrow>
          \<lparr>outcome = failure_response err,
           trace = logged @ [GenerateImage p model sz numSteps,
                             ConsoleError log_generate_failed]\<rparr>
      | Hangs \<Rightarrow>
          \<lparr>outcome = Hangs,
           trace = logged @ [GenerateImage p model sz numSteps]\<rparr>)"

text \<open>\<^verbatim>\<open>formData.get("enhance") === "true"\<close>.\<close>

definition enhance_flag :: "form_data \<Rightarrow> bool" where
  "enhance_flag formData = (formData_get formData ''enhance'' = Some ''true'')"

text \<open>
  The action, on the application context and the parsed form. \<^verbatim>\<open>!prompt\<close> holds for
  \<^verbatim>\<open>null\<close> and for the empty string; \<^verbatim>\<open>model\<close> is what the lookup of the
  model id on the catalog gives.
\<close>

definition action :: "app_context \<Rightarrow> form_data \<Rightarrow> action_body response run" where
  "action appContext formData =
     (let svc = imageGenerationService appContext;
          cfg = app_config appContext;
          logged = [ConsoleLog ''Generate image action started'', ConsoleLog ''Config:'',
                    ConsoleLog ''Form data:''];
          promptField = formData_get formData ''prompt'';
          enhance = enhance_flag formData;
          modelId = formData_get formData ''model'';
          sz = formData_get formData ''size'';
          numSteps = parseInt10 (ToString (formData_get formData ''numSteps''))
      in case promptField of
           None \<Rightarrow> \<lparr>outcome = json (ErrorBody msg_no_prompt) 400, trace = logged\<rparr>
         | Some p \<Rightarrow>
             if p = [] then \<lparr>outcome = json (ErrorBody msg_no_prompt) 400, trace = logged\<rparr>
             else
               (let model = catalog_get (CUSTOMER_MODEL_MAP cfg) (ToString modelId)
                in if falsy_value model
                   then \<lparr>outcome = json (ErrorBody msg_invalid_model) 400, trace = logged\<rparr>
                   else dispatch svc logged
                          (if enhance then enhancement_marker @ p else p) model sz numSteps))"

text \<open>The two guards of the action: neither \<^verbatim>\<open>!prompt\<close> nor \<^verbatim>\<open>!model\<close>.\<close>

definition passes_validation :: "app_context \<Rightarrow> form_data \<Rightarrow> bool" where
  "passes_validation appContext formData =
     (\<not> falsy (formData_get formData ''prompt'') \<and>
      \<not> falsy_value (catalog_get (CUSTOMER_MODEL_MAP (app_config appContext))
                       (ToString (formData_get formData ''model''))))"

subsection \<open>The loader\<close>

definition loader :: "app_context \<Rightarrow> loader_data response run" where
  "loader appContext =
     (let cfg = app_config appContext;
          page = json \<lparr>models = map (\<lambda>id. (id, catalog_get (CUSTOMER_MODEL_MAP cfg) id))
                                   (map fst (CUSTOMER_MODEL_MAP cfg)),
                       loader_config = cfg\<rparr> 200
      in case testCfAiConnection (imageGenerationService appContext) of
           Returns _ \<Rightarrow>
             \<lparr>outcome = page,
              trace = [TestCfAiConnection,
                       ConsoleLog ''Cloudflare AI connection test successful'']\<rparr>
         | Throws _ \<Rightarrow>
             \<lparr>outcome = page,
              trace = [TestCfAiConnection,
                       ConsoleError ''Cloudflare AI connection test failed:'']\<rparr>
         | Hangs \<Rightarrow> \<lparr>outcome = Hangs, trace = [TestCfAiConnection]\<rparr>)"

subsection \<open>Reading a trace\<close>

fun is_generateImage :: "event \<Rightarrow> bool" where
  "is_generateImage (GenerateImage _ _ _ _) = True"
| "is_generateImage _ = False"

definition generateImage_calls :: "event list \<Rightarrow> event list" where
  "generateImage_calls tr = filter is_generateImage tr"

text \<open>The first and the last argument of every \<^verbatim>\<open>generateImage\<close> call of a trace.\<close>

fun event_prompt :: "event \<Rightarrow> string list" where
  "event_prompt (GenerateImage p _ _ _) = [p]"
| "event_prompt _ = []"

definition dispatched_prompts :: "event list \<Rightarrow> string list" where
  "dispatched_prompts tr = concat (map event_prompt tr)"

fun event_numSteps :: "event \<Rightarrow> js_number list" where
  "event_numSteps (GenerateImage _ _ _ n) = [n]"
| "event_numSteps _ = []"

definition dispatched_numSteps :: "event list \<Rightarrow> js_number list" where
  "dispatched_numSteps tr = concat (map event_numSteps tr)"

text \<open>An integer from 4 to 8.\<close>

fun steps_in_range :: "js_number \<Rightarrow> bool" where
  "steps_in_range (Num n) = (4 \<le> n \<and> n \<le> 8)"
| "steps_in_range _ = False"

subsection \<open>A concrete deployment\<close>

text \<open>
  A catalog with the model the component selects by default, a service that answers every
  call, and a form as the page submits it.
\<close>

definition example_config :: config where
  "example_config =
     \<lparr>CUSTOMER_MODEL_MAP = [(''FLUX.1-Schnell-CF'', ''@cf/black-forest-labs/flux-1-schnell'')],
      FLUX_NUM_STEPS = 4\<rparr>"

definition echo_service :: image_generation_service where
  "echo_service =
     \<lparr>testCfAiConnection = Returns (),
      generateImage = (\<lambda>p model sz numSteps.
         Returns \<lparr>image = ''aGVsbG8='', prompt = p, translatedPrompt = p\<rparr>)\<rparr>"

definition failing_service :: "thrown \<Rightarrow> image_generation_service" where
  "failing_service err =
     \<lparr>testCfAiConnection = Throws err,
      generateImage = (\<lambda>p model sz numSteps. Throws err)\<rparr>"

definition example_context :: "image_generation_service \<Rightarrow> app_context" where
  "example_context svc = \<lparr>imageGenerationService = svc, app_config = example_config\<rparr>"

definition example_form :: "string \<Rightarrow> string \<Rightarrow> string \<Rightarrow> form_data" where
  "example_form p enh steps =
     [(''prompt'', p), (''model'', ''FLUX.1-Schnell-CF''), (''size'', ''1024x1024''),
      (''numSteps'', steps), (''enhance'', enh)]"

subsection \<open>The submit guard of the form\<close>

text \<open>
  At each render the component reads \<^verbatim>\<open>navigation.state\<close> of Remix into the
  constant \<^verbatim>\<open>isSubmitting\<close>, and hands \<^verbatim>\<open>Form\<close> the \<^verbatim>\<open>handleSubmit\<close> of
  that render as \<^verbatim>\<open>onSubmit\<close>: the handler sees the \<^verbatim>\<open>isSubmitting\<close> of the
  render it was made in.
\<close>

datatype navigation_state = Idle | Submitting | Loading




text \<open>
  A client session: the navigation state of the router, the navigation state the last
  render has read, and how many POST requests the form has dispatched and how many
  submissions have settled. The framework is Remix, as documented: \<^verbatim>\<open>Form\<close> calls
  \<^verbatim>\<open>onSubmit\<close> and submits unless the event's default was prevented; a submission
  puts the navigation into \<^verbatim>\<open>"submitting"\<close> until the action has settled, then into
  \<^verbatim>\<open>"loading"\<close> while the loaders run again, then back to \<^verbatim>\<open>"idle"\<close>. A
  render is an event of its own: between a change of the navigation state and the next
  render the component still holds the old \<^verbatim>\<open>isSubmitting\<close>.
\<close>

record client =
  navigation :: navigation_state
  rendered :: navigation_state
  dispatched :: nat
  settled :: nat









section \<open>Properties\<close>

subsection \<open>Auxiliary facts\<close>

lemma trimStart_no_ws: "ws_width (trimStart s) = 0"
  by (induction s rule: trimStart.induct) (subst trimStart.simps, simp)

lemma to_double_exact: "n < 2 ^ 53 \<Longrightarrow> to_double n = Some n"
  by (simp add: to_double_def)

lemma parseInt10_slider_values:
  "parseInt10 ''4'' = Num 4" "parseInt10 ''5'' = Num 5" "parseInt10 ''6'' = Num 6"
  "parseInt10 ''7'' = Num 7" "parseInt10 ''8'' = Num 8"
  by (simp_all add: parseInt10_def ws_width_def StrWhiteSpaceChar_def is_digit_def
      digits_value_def digit_value_def to_number_def to_double_def)

lemma parseInt10_100: "parseInt10 ''100'' = Num 100"
  by (simp add: parseInt10_def ws_width_def StrWhiteSpaceChar_def is_digit_def
      digits_value_def digit_value_def to_number_def to_double_def)

text \<open>
  Beyond \<open>2 ^ 53\<close> the digits are rounded to a double; a negative zero and the
  \<^verbatim>\<open>"null"\<close> of an absent field are read as JavaScript reads them.
\<close>

lemma bit_length_example: "bit_length 9007199254740993 = 54"
  by (simp add: bit_length.simps)

lemma parseInt10_rounds_to_double:
  "parseInt10 ''9007199254740993'' = Num 9007199254740992"
  by (simp add: parseInt10_def ws_width_def StrWhiteSpaceChar_def is_digit_def
      digits_value_def digit_value_def to_number_def to_double_def bit_length_example Let_def)

lemma parseInt10_negative_zero: "parseInt10 ''-0'' = NegZero"
  by (simp add: parseInt10_def ws_width_def StrWhiteSpaceChar_def is_digit_def
      digits_value_def digit_value_def to_number_def)

lemma parseInt10_absent_field: "parseInt10 (ToString None) = NaN"
  by (simp add: ToString_def parseInt10_def ws_width_def StrWhiteSpaceChar_def is_digit_def)

text \<open>The statuses the action itself passes to \<^verbatim>\<open>json\<close>.\<close>

lemma json_fixed_statuses:
  "json data 200 = Returns \<lparr>status = 200, body = data\<rparr>"
  "json data 400 = Returns \<lparr>status = 400, body = data\<rparr>"
  "json data 500 = Returns \<lparr>status = 500, body = data\<rparr>"
  by (simp_all add: json_def null_body_status_def)

lemma json_with_body:
  "200 \<le> s \<Longrightarrow> s \<le> 599 \<Longrightarrow> \<not> null_body_status s
     \<Longrightarrow> json data s = Returns \<lparr>status = s, body = data\<rparr>"
  by (simp add: json_def)

text \<open>Past both guards the action is the dispatch.\<close>

lemma action_valid:
  assumes "formData_get formData ''prompt'' = Some p" and "p \<noteq> []"
    and "\<not> falsy_value (catalog_get (CUSTOMER_MODEL_MAP (app_config appContext))
           (ToString (formData_get formData ''model'')))"
  shows "action appContext formData =
     dispatch (imageGenerationService appContext)
       [ConsoleLog ''Generate image action started'', ConsoleLog ''Config:'',
        ConsoleLog ''Form data:'']
       (if enhance_flag formData then enhancement_marker @ p else p)
       (catalog_get (CUSTOMER_MODEL_MAP (app_config appContext))
          (ToString (formData_get formData ''model'')))
       (formData_get formData ''size'')
       (parseInt10 (ToString (formData_get formData ''numSteps'')))"
  using assms by (simp add: action_def Let_def)

text \<open>A submission stopped by a guard: three console lines and a 400.\<close>

lemma action_invalid:
  assumes "\<not> passes_validation appContext formData"
  shows "trace (action appContext formData) =
       [ConsoleLog ''Generate image action started'', ConsoleLog ''Config:'',
        ConsoleLog ''Form data:'']"
    and "\<exists>msg. outcome (action appContext formData)
           = Returns \<lparr>status = 400, body = ErrorBody msg\<rparr>"
  using assms
  by (auto simp: action_def Let_def passes_validation_def falsy_def json_fixed_statuses
      split: option.splits)

lemma passes_validationE:
  assumes "passes_validation appContext formData"
  obtains p where "formData_get formData ''prompt'' = Some p" and "p \<noteq> []"
    and "\<not> falsy_value (catalog_get (CUSTOMER_MODEL_MAP (app_config appContext))
           (ToString (formData_get formData ''model'')))"
  using assms by (auto simp: passes_validation_def falsy_def split: option.splits)

lemma dispatch_calls:
  "generateImage_calls (trace (dispatch svc [ConsoleLog a, ConsoleLog b, ConsoleLog c] p m sz n))
     = [GenerateImage p m sz n]"
  by (simp add: dispatch_def generateImage_calls_def split: completion.splits)

lemma dispatch_prompts:
  "dispatched_prompts (trace (dispatch svc [ConsoleLog a, ConsoleLog b, ConsoleLog c] p m sz n))
     = [p]"
  by (simp add: dispatch_def dispatched_prompts_def split: completion.splits)

lemma dispatch_numSteps:
  "dispatched_numSteps (trace (dispatch svc [ConsoleLog a, ConsoleLog b, ConsoleLog c] p m sz n))
     = [n]"
  by (simp add: dispatch_def dispatched_numSteps_def split: completion.splits)

text \<open>A run whose trace holds a call is the dispatch with the arguments of that call.\<close>

lemma action_call_cases:
  assumes "generateImage_calls (trace (action appContext formData)) = [GenerateImage a b c d]"
  shows "action appContext formData =
     dispatch (imageGenerationService appContext)
       [ConsoleLog ''Generate image action started'', ConsoleLog ''Config:'',
        ConsoleLog ''Form data:''] a b c d"
proof (cases "passes_validation appContext formData")
  case False
  from action_invalid(1) [OF this] assms show ?thesis
    by (simp add: generateImage_calls_def)
next
  case True
  then obtain p where v: "formData_get formData ''prompt'' = Some p" "p \<noteq> []"
    "\<not> falsy_value (catalog_get (CUSTOMER_MODEL_MAP (app_config appContext))
        (ToString (formData_get formData ''model'')))"
    by (rule passes_validationE)
  from assms show ?thesis
    unfolding action_valid [OF v] dispatch_calls by simp
qed

text \<open>
  An \<^verbatim>\<open>AppError\<close> whose status no response with a body can have leaves the action
  without a response: building it throws.
\<close>

lemma failure_response_out_of_range:
  "s \<noteq> 0 \<Longrightarrow> s < 200 \<or> (599 < s \<and> s < 2 ^ 16) \<Longrightarrow>
     failure_response (AppError message (Some s)) = Throws RangeError"
  by (auto simp: failure_response_def status_or_500_def json_def)

lemma failure_response_null_body:
  "null_body_status s \<Longrightarrow>
     failure_response (AppError message (Some s)) = Throws TypeError"
  by (auto simp: failure_response_def status_or_500_def json_def null_body_status_def)

text \<open>
  A model id that is neither a key of the catalog nor a property name of
  \<^verbatim>\<open>Object.prototype\<close> is stopped by the second guard.
\<close>

lemma action_unresolved_model_rejected:
  assumes "ToString (formData_get formData ''model'')
             \<notin> fst ` set (CUSTOMER_MODEL_MAP (app_config appContext))"
    and "ToString (formData_get formData ''model'') \<notin> set Object_prototype_keys"
  shows "(\<exists>msg. outcome (action appContext formData)
            = Returns \<lparr>status = 400, body = ErrorBody msg\<rparr>)
       \<and> generateImage_calls (trace (action appContext formData)) = []"
proof -
  from assms(1) have
    "map_of (CUSTOMER_MODEL_MAP (app_config appContext))
       (ToString (formData_get formData ''model'')) = None"
    by (simp add: map_of_eq_None_iff)
  with assms(2) have
    "catalog_get (CUSTOMER_MODEL_MAP (app_config appContext))
       (ToString (formData_get formData ''model'')) = Undefined"
    by (simp add: catalog_get_def)
  then have "\<not> passes_validation appContext formData"
    by (simp add: passes_validation_def falsy_value_def)
  from action_invalid [OF this] show ?thesis
    by (simp add: generateImage_calls_def)
qed

lemmas example_defs =
  example_config_def echo_service_def failing_service_def example_context_def
  example_form_def

lemmas action_defs =
  action_def dispatch_def json_fixed_statuses formData_get_def catalog_get_def
  falsy_value_def ToString_def enhance_flag_def failure_response_def status_or_500_def
  enhancement_marker_def Let_def

subsection \<open>The prompt sent to the service\<close>

text \<open>
  Claim C1. For a submission that passes validation (a non-empty prompt \<open>p\<close>, a model id
  whose lookup on the catalog is not falsy), the action calls the service once, and the
  prompt of that call is the marker \<^verbatim>\<open>---tl \<close> followed by \<open>p\<close> when
  \<^verbatim>\<open>enhance\<close> is true (one copy of the marker: dropping its length gives \<open>p\<close> back),
  and \<open>p\<close> itself when \<^verbatim>\<open>enhance\<close> is false.
\<close>

theorem action_dispatched_prompt:
  assumes "formData_get formData ''prompt'' = Some p" and "p \<noteq> []"
    and "\<not> falsy_value (catalog_get (CUSTOMER_MODEL_MAP (app_config appContext))
           (ToString (formData_get formData ''model'')))"
  shows "(enhance_flag formData \<longrightarrow>
            dispatched_prompts (trace (action appContext formData)) = [enhancement_marker @ p]
          \<and> map (drop (length enhancement_marker))
                (dispatched_prompts (trace (action appContext formData))) = [p])
       \<and> (\<not> enhance_flag formData \<longrightarrow>
            dispatched_prompts (trace (action appContext formData)) = [p])"
  by (simp add: action_valid [OF assms] dispatch_prompts)

theorem action_dispatched_prompt_witness:
  "enhance_flag (example_form ''a cat'' ''true'' ''4'')
   \<and> dispatched_prompts (trace (action (example_context echo_service)
         (example_form ''a cat'' ''true'' ''4''))) = [''---tl a cat'']
   \<and> \<not> enhance_flag (example_form ''a cat'' ''false'' ''4'')
   \<and> dispatched_prompts (trace (action (example_context echo_service)
         (example_form ''a cat'' ''false'' ''4''))) = [''a cat'']"
  using
    action_dispatched_prompt [of "example_form ''a cat'' ''true'' ''4''" "''a cat''"
      "example_context echo_service"]
    action_dispatched_prompt [of "example_form ''a cat'' ''false'' ''4''" "''a cat''"
      "example_context echo_service"]
  by (simp add: example_defs formData_get_def catalog_get_def falsy_value_def ToString_def
      enhance_flag_def enhancement_marker_def)

text \<open>
  Claim C10. The flag is true exactly when the \<^verbatim>\<open>enhance\<close> field is the string
  \<^verbatim>\<open>"true"\<close>. For any other value, and for an absent field, a submission that passes
  validation is dispatched with the submitted prompt as it is; for \<^verbatim>\<open>"true"\<close> it is
  dispatched with the marker in front.
\<close>

theorem enhance_only_for_literal_true:
  assumes "passes_validation appContext formData"
  shows "(enhance_flag formData \<longleftrightarrow> formData_get formData ''enhance'' = Some ''true'')
       \<and> (formData_get formData ''enhance'' \<noteq> Some ''true'' \<longrightarrow>
            dispatched_prompts (trace (action appContext formData))
              = [ToString (formData_get formData ''prompt'')])
       \<and> (formData_get formData ''enhance'' = Some ''true'' \<longrightarrow>
            dispatched_prompts (trace (action appContext formData))
              = [''---tl '' @ ToString (formData_get formData ''prompt'')])"
proof -
  from assms obtain p where v: "formData_get formData ''prompt'' = Some p" "p \<noteq> []"
    "\<not> falsy_value (catalog_get (CUSTOMER_MODEL_MAP (app_config appContext))
        (ToString (formData_get formData ''model'')))"
    by (rule passes_validationE)
  show ?thesis
    unfolding action_valid [OF v] dispatch_prompts
    by (simp add: enhance_flag_def v ToString_def enhancement_marker_def)
qed

text \<open>The witness: the field holds \<^verbatim>\<open>"True"\<close>, and a form without the field.\<close>

theorem enhance_only_for_literal_true_witness:
  "passes_validation (example_context echo_service) (example_form ''a cat'' ''True'' ''4'')
   \<and> \<not> enhance_flag (example_form ''a cat'' ''True'' ''4'')
   \<and> dispatched_prompts (trace (action (example_context echo_service)
         (example_form ''a cat'' ''True'' ''4''))) = [''a cat'']
   \<and> passes_validation (example_context echo_service)
         [(''prompt'', ''a cat''), (''model'', ''FLUX.1-Schnell-CF'')]
   \<and> formData_get [(''prompt'', ''a cat''), (''model'', ''FLUX.1-Schnell-CF'')] ''enhance'' = None
   \<and> dispatched_prompts (trace (action (example_context echo_service)
         [(''prompt'', ''a cat''), (''model'', ''FLUX.1-Schnell-CF'')])) = [''a cat'']"
  using
    enhance_only_for_literal_true [of "example_context echo_service"
      "example_form ''a cat'' ''True'' ''4''"]
    enhance_only_for_literal_true [of "example_context echo_service"
      "[(''prompt'', ''a cat''), (''model'', ''FLUX.1-Schnell-CF'')]"]
  by (simp add: example_defs passes_validation_def falsy_def falsy_value_def formData_get_def
      catalog_get_def ToString_def enhance_flag_def)

subsection \<open>Validation\<close>

text \<open>
  Claim C2. A submission whose \<^verbatim>\<open>prompt\<close> field is absent or the empty string gets
  a 400 response with the missing-prompt message, and the service's
  \<^verbatim>\<open>generateImage\<close> is not called.
\<close>

theorem action_empty_prompt_rejected:
  assumes "formData_get formData ''prompt'' = None \<or> formData_get formData ''prompt'' = Some []"
  shows "outcome (action appContext formData)
           = Returns \<lparr>status = 400, body = ErrorBody msg_no_prompt\<rparr>
       \<and> generateImage_calls (trace (action appContext formData)) = []"
  using assms by (auto simp: action_def Let_def json_fixed_statuses generateImage_calls_def)

theorem action_empty_prompt_rejected_witness:
  "formData_get (example_form [] ''false'' ''4'') ''prompt'' = Some []
   \<and> outcome (action (example_context echo_service) (example_form [] ''false'' ''4''))
       = Returns \<lparr>status = 400, body = ErrorBody msg_no_prompt\<rparr>
   \<and> generateImage_calls (trace (action (example_context echo_service)
         (example_form [] ''false'' ''4''))) = []"
  using action_empty_prompt_rejected [of "example_form [] ''false'' ''4''"
      "example_context echo_service"]
  by (simp add: formData_get_def example_form_def)

text \<open>
  Claim C3 asks for a 400 and no call whenever the model id is not in the catalog. The
  guard \<^verbatim>\<open>!model\<close> tests what the lookup gives, and the lookup also finds what the
  catalog object inherits: the model id \<^verbatim>\<open>toString\<close> is no key of the catalog, yet
  the action calls \<^verbatim>\<open>generateImage\<close> with the inherited function as the model and
  answers with the service's result.
\<close>

theorem inherited_model_id_is_dispatched:
  "ToString (formData_get
       [(''prompt'', ''a cat''), (''model'', ''toString''), (''size'', ''1024x1024''),
        (''numSteps'', ''4''), (''enhance'', ''false'')] ''model'')
     \<notin> fst ` set (CUSTOMER_MODEL_MAP (app_config (example_context echo_service)))
   \<and> generateImage_calls (trace (action (example_context echo_service)
         [(''prompt'', ''a cat''), (''model'', ''toString''), (''size'', ''1024x1024''),
          (''numSteps'', ''4''), (''enhance'', ''false'')]))
       = [GenerateImage ''a cat'' (Inherited ''toString'') (Some ''1024x1024'') (Num 4)]
   \<and> outcome (action (example_context echo_service)
         [(''prompt'', ''a cat''), (''model'', ''toString''), (''size'', ''1024x1024''),
          (''numSteps'', ''4''), (''enhance'', ''false'')])
       = Returns \<lparr>status = 200,
                  body = ResultBody \<lparr>image = ''aGVsbG8='', prompt = ''a cat'',
                                      translatedPrompt = ''a cat''\<rparr>\<rparr>"
  by (simp add: action_defs example_defs generateImage_calls_def parseInt10_slider_values
      Object_prototype_keys_def)

subsection \<open>The response after the call\<close>

text \<open>
  Claim C5. When the action has called \<^verbatim>\<open>generateImage\<close> and the call returns the
  result \<open>R\<close>, the response is a 200 whose body is \<open>R\<close>: its \<^verbatim>\<open>image\<close>,
  \<^verbatim>\<open>prompt\<close> and \<^verbatim>\<open>translatedPrompt\<close> are those of \<open>R\<close>.
\<close>

theorem action_success_verbatim:
  assumes "generateImage_calls (trace (action appContext formData)) = [GenerateImage p m sz n]"
    and "generateImage (imageGenerationService appContext) p m sz n = Returns R"
  shows "outcome (action appContext formData)
           = Returns \<lparr>status = 200, body = ResultBody R\<rparr>"
  using assms(2) unfolding action_call_cases [OF assms(1)]
  by (simp add: dispatch_def json_fixed_statuses)

theorem action_success_verbatim_witness:
  "generateImage_calls (trace (action (example_context echo_service)
       (example_form ''a cat'' ''true'' ''6'')))
     = [GenerateImage ''---tl a cat'' (Str ''@cf/black-forest-labs/flux-1-schnell'')
          (Some ''1024x1024'') (Num 6)]
   \<and> generateImage (imageGenerationService (example_context echo_service))
        ''---tl a cat'' (Str ''@cf/black-forest-labs/flux-1-schnell'') (Some ''1024x1024'')
        (Num 6)
       = Returns \<lparr>image = ''aGVsbG8='', prompt = ''---tl a cat'',
                  translatedPrompt = ''---tl a cat''\<rparr>
   \<and> outcome (action (example_context echo_service) (example_form ''a cat'' ''true'' ''6''))
       = Returns \<lparr>status = 200,
                  body = ResultBody \<lparr>image = ''aGVsbG8='', prompt = ''---tl a cat'',
                                      translatedPrompt = ''---tl a cat''\<rparr>\<rparr>"
proof -
  have calls: "generateImage_calls (trace (action (example_context echo_service)
       (example_form ''a cat'' ''true'' ''6'')))
     = [GenerateImage ''---tl a cat'' (Str ''@cf/black-forest-labs/flux-1-schnell'')
          (Some ''1024x1024'') (Num 6)]"
    by (simp add: action_defs example_defs generateImage_calls_def parseInt10_slider_values)
  have returns: "generateImage (imageGenerationService (example_context echo_service))
        ''---tl a cat'' (Str ''@cf/black-forest-labs/flux-1-schnell'') (Some ''1024x1024'')
        (Num 6)
       = Returns \<lparr>image = ''aGVsbG8='', prompt = ''---tl a cat'',
                  translatedPrompt = ''---tl a cat''\<rparr>"
    by (simp add: example_defs)
  from action_success_verbatim [OF calls returns] calls returns show ?thesis by simp
qed

text \<open>
  Claim C4, as the spec states it, sends every failure that is not an \<^verbatim>\<open>AppError\<close>
  with a status to the generic message. The code keeps the message of an
  \<^verbatim>\<open>AppError\<close> that has no status: the response is a 500 with the error's own
  message behind the prefix, which is not the generic message.
\<close>

theorem apperror_without_status_keeps_message:
  "outcome (action (example_context (failing_service (AppError ''boom'' None)))
       (example_form ''a cat'' ''false'' ''4''))
     = Returns \<lparr>status = 500, body = ErrorBody (msg_failed_prefix @ ''boom'')\<rparr>
   \<and> msg_failed_prefix @ ''boom'' \<noteq> msg_unknown_error"
  by (simp add: action_defs example_defs parseInt10_slider_values msg_failed_prefix_def
      msg_unknown_error_def)

text \<open>
  Claim C4, amended. When the \<^verbatim>\<open>generateImage\<close> call of the action throws:
  an \<^verbatim>\<open>AppError\<close> with a status that a response with a body can have (200..599
  other than 204, 205 and 304) gives a response of that status whose error string is the
  fixed prefix followed by the error's message; an \<^verbatim>\<open>AppError\<close> with no status (or
  status 0) gives status 500 with the same error string; anything that is not an
  \<^verbatim>\<open>AppError\<close> gives status 500 with the fixed generic message.
\<close>

theorem action_failure_response:
  assumes "generateImage_calls (trace (action appContext formData)) = [GenerateImage p m sz n]"
    and "generateImage (imageGenerationService appContext) p m sz n = Throws err"
  shows "(\<forall>message s. err = AppError message (Some s) \<and> 200 \<le> s \<and> s \<le> 599
              \<and> \<not> null_body_status s \<longrightarrow>
            outcome (action appContext formData)
              = Returns \<lparr>status = s, body = ErrorBody (msg_failed_prefix @ message)\<rparr>)
       \<and> (\<forall>message. err = AppError message None \<or> err = AppError message (Some 0) \<longrightarrow>
            outcome (action appContext formData)
              = Returns \<lparr>status = 500, body = ErrorBody (msg_failed_prefix @ message)\<rparr>)
       \<and> ((\<forall>message st. err \<noteq> AppError message st) \<longrightarrow>
            outcome (action appContext formData)
              = Returns \<lparr>status = 500, body = ErrorBody msg_unknown_error\<rparr>)"
  using assms(2) unfolding action_call_cases [OF assms(1)]
  by (cases err)
    (auto simp: dispatch_def json_fixed_statuses json_with_body failure_response_def
      status_or_500_def)

text \<open>The witness is the spec's example: status 503 and the message \<^verbatim>\<open>overloaded\<close>.\<close>

theorem action_failure_response_witness:
  "generateImage_calls (trace (action
       (example_context (failing_service (AppError ''overloaded'' (Some 503))))
       (example_form ''a cat'' ''false'' ''4'')))
     = [GenerateImage ''a cat'' (Str ''@cf/black-forest-labs/flux-1-schnell'')
          (Some ''1024x1024'') (Num 4)]
   \<and> generateImage (imageGenerationService
          (example_context (failing_service (AppError ''overloaded'' (Some 503)))))
        ''a cat'' (Str ''@cf/black-forest-labs/flux-1-schnell'') (Some ''1024x1024'') (Num 4)
       = Throws (AppError ''overloaded'' (Some 503))
   \<and> \<not> null_body_status 503
   \<and> outcome (action (example_context (failing_service (AppError ''overloaded'' (Some 503))))
         (example_form ''a cat'' ''false'' ''4''))
       = Returns \<lparr>status = 503, body = ErrorBody (msg_failed_prefix @ ''overloaded'')\<rparr>"
proof -
  let ?ctx = "example_context (failing_service (AppError ''overloaded'' (Some 503)))"
  have calls: "generateImage_calls (trace (action ?ctx (example_form ''a cat'' ''false'' ''4'')))
     = [GenerateImage ''a cat'' (Str ''@cf/black-forest-labs/flux-1-schnell'')
          (Some ''1024x1024'') (Num 4)]"
    by (simp add: action_defs example_defs generateImage_calls_def parseInt10_slider_values)
  have throws: "generateImage (imageGenerationService ?ctx)
        ''a cat'' (Str ''@cf/black-forest-labs/flux-1-schnell'') (Some ''1024x1024'') (Num 4)
       = Throws (AppError ''overloaded'' (Some 503))"
    by (simp add: example_defs)
  have ok: "\<not> null_body_status 503"
    by (simp add: null_body_status_def)
  from action_failure_response [OF calls throws] calls throws ok show ?thesis by simp
qed

subsection \<open>The step count\<close>

text \<open>
  Claim C6, as the spec states it, has every dispatched \<^verbatim>\<open>numSteps\<close> in 4..8. The
  action passes on what \<^verbatim>\<open>parseInt\<close> reads and checks no range: a form with
  \<^verbatim>\<open>numSteps=100\<close> is dispatched with 100.
\<close>

theorem numSteps_100_dispatched:
  "dispatched_numSteps (trace (action (example_context echo_service)
       (example_form ''a cat'' ''false'' ''100''))) = [Num 100]
   \<and> \<not> steps_in_range (Num 100)"
  by (simp add: action_defs example_defs dispatched_numSteps_def parseInt10_100)

text \<open>
  Claim C6, amended. For a submission that passes validation, the \<^verbatim>\<open>numSteps\<close>
  passed to \<^verbatim>\<open>generateImage\<close> is the number \<^verbatim>\<open>parseInt\<close> (radix 10) reads
  from the submitted field, with no range check; it is an integer from 4 to 8 when the
  field is one of the strings \<^verbatim>\<open>"4"\<close> to \<^verbatim>\<open>"8"\<close>, the values of the form's
  range input.
\<close>

theorem action_numSteps_parsed:
  assumes "passes_validation appContext formData"
  shows "dispatched_numSteps (trace (action appContext formData))
           = [parseInt10 (ToString (formData_get formData ''numSteps''))]
       \<and> (formData_get formData ''numSteps'' \<in> Some ` {''4'', ''5'', ''6'', ''7'', ''8''} \<longrightarrow>
            list_all steps_in_range (dispatched_numSteps (trace (action appContext formData))))"
proof -
  from assms obtain p where v: "formData_get formData ''prompt'' = Some p" "p \<noteq> []"
    "\<not> falsy_value (catalog_get (CUSTOMER_MODEL_MAP (app_config appContext))
        (ToString (formData_get formData ''model'')))"
    by (rule passes_validationE)
  have eq: "dispatched_numSteps (trace (action appContext formData))
      = [parseInt10 (ToString (formData_get formData ''numSteps''))]"
    by (simp add: action_valid [OF v] dispatch_numSteps)
  show ?thesis
    unfolding eq by (auto simp: ToString_def parseInt10_slider_values)
qed

theorem action_numSteps_parsed_witness:
  "passes_validation (example_context echo_service) (example_form ''a cat'' ''false'' ''7'')
   \<and> formData_get (example_form ''a cat'' ''false'' ''7'') ''numSteps'' = Some ''7''
   \<and> dispatched_numSteps (trace (action (example_context echo_service)
         (example_form ''a cat'' ''false'' ''7''))) = [Num 7]
   \<and> list_all steps_in_range (dispatched_numSteps (trace (action (example_context echo_service)
         (example_form ''a cat'' ''false'' ''7''))))"
  using action_numSteps_parsed [of "example_context echo_service"
      "example_form ''a cat'' ''false'' ''7''"]
  by (simp add: example_defs passes_validation_def falsy_def falsy_value_def formData_get_def
      catalog_get_def ToString_def parseInt10_slider_values)

subsection \<open>The connection probe\<close>

text \<open>
  Claim C7, as the spec states it, has the probe before every generation request. The
  probe is in the loader, which serves the page; the action, which serves the generation
  request, does not call \<^verbatim>\<open>testCfAiConnection\<close>: here a request is served with a
  200 and its trace holds no probe.
\<close>

theorem action_serves_without_probe:
  "trace (action (example_context echo_service) (example_form ''a cat'' ''false'' ''4''))
     = [ConsoleLog ''Generate image action started'', ConsoleLog ''Config:'',
        ConsoleLog ''Form data:'',
        GenerateImage ''a cat'' (Str ''@cf/black-forest-labs/flux-1-schnell'')
          (Some ''1024x1024'') (Num 4),
        ConsoleLog ''Image generation successful'']
   \<and> outcome (action (example_context echo_service) (example_form ''a cat'' ''false'' ''4''))
       = Returns \<lparr>status = 200,
                  body = ResultBody \<lparr>image = ''aGVsbG8='', prompt = ''a cat'',
                                      translatedPrompt = ''a cat''\<rparr>\<rparr>
   \<and> TestCfAiConnection
       \<notin> set (trace (action (example_context echo_service)
                 (example_form ''a cat'' ''false'' ''4'')))"
  by (simp add: action_defs example_defs parseInt10_slider_values)

text \<open>
  Claim C7, amended. Serving the page, the loader first calls
  \<^verbatim>\<open>testCfAiConnection\<close> and, once the probe has settled, writes its result to the
  console (a log line after success, an error line after failure) and returns the models
  and the configuration with status 200, the same after either result. The action makes
  no probe.
\<close>

theorem probe_is_advisory_in_loader:
  "(testCfAiConnection (imageGenerationService appContext) \<noteq> Hangs \<longrightarrow>
      outcome (loader appContext) =
        Returns \<lparr>status = 200,
                 body = \<lparr>models =
                           map (\<lambda>id. (id, catalog_get (CUSTOMER_MODEL_MAP (app_config appContext)) id))
                             (map fst (CUSTOMER_MODEL_MAP (app_config appContext))),
                         loader_config = app_config appContext\<rparr>\<rparr>
      \<and> trace (loader appContext) =
          [TestCfAiConnection,
           if testCfAiConnection (imageGenerationService appContext) = Returns ()
           then ConsoleLog ''Cloudflare AI connection test successful''
           else ConsoleError ''Cloudflare AI connection test failed:''])
   \<and> TestCfAiConnection \<notin> set (trace (action appContext formData))"
proof -
  have "TestCfAiConnection \<notin> set (trace (action appContext formData))"
    by (auto simp: action_def Let_def dispatch_def split: option.splits completion.splits)
  then show ?thesis
    by (auto simp: loader_def Let_def json_fixed_statuses split: completion.splits)
qed

text \<open>The witness: the probe fails, and the page is served all the same.\<close>

theorem probe_is_advisory_in_loader_witness:
  "testCfAiConnection (imageGenerationService (example_context (failing_service OtherError)))
     \<noteq> Hangs
   \<and> outcome (loader (example_context (failing_service OtherError))) =
        Returns \<lparr>status = 200,
                 body = \<lparr>models = [(''FLUX.1-Schnell-CF'',
                                     Str ''@cf/black-forest-labs/flux-1-schnell'')],
                         loader_config = example_config\<rparr>\<rparr>
   \<and> trace (loader (example_context (failing_service OtherError))) =
        [TestCfAiConnection, ConsoleError ''Cloudflare AI connection test failed:'']"
  using probe_is_advisory_in_loader [of "example_context (failing_service OtherError)" "[]"]
  by (simp add: example_defs catalog_get_def)

subsection \<open>The number of calls\<close>

text \<open>
  Claim C9, as the spec states it, has one \<^verbatim>\<open>generateImage\<close> call in every
  invocation. An invocation stopped by a guard makes none: the empty prompt is answered
  with a 400 and no call.
\<close>

theorem rejected_invocation_makes_no_call:
  "length (generateImage_calls (trace (action (example_context echo_service)
       (example_form [] ''false'' ''4'')))) = 0
   \<and> outcome (action (example_context echo_service) (example_form [] ''false'' ''4''))
       = Returns \<lparr>status = 400, body = ErrorBody msg_no_prompt\<rparr>"
  by (simp add: action_defs example_defs generateImage_calls_def)

text \<open>
  Claim C9, amended. An invocation makes at most one \<^verbatim>\<open>generateImage\<close> call: none
  when one of the two guards (\<^verbatim>\<open>!prompt\<close>, \<^verbatim>\<open>!model\<close>) stops it, exactly one
  when it passes both. That call comes right after the three console lines written
  before it, and the action is awaiting it: the action has no outcome exactly when the
  call never settles.
\<close>

theorem action_calls_generateImage_once:
  "length (generateImage_calls (trace (action appContext formData))) \<le> 1
   \<and> (\<not> passes_validation appContext formData \<longrightarrow>
        generateImage_calls (trace (action appContext formData)) = [])
   \<and> (passes_validation appContext formData \<longrightarrow>
        (\<exists>p m sz n.
           trace (action appContext formData) =
             [ConsoleLog ''Generate image action started'', ConsoleLog ''Config:'',
              ConsoleLog ''Form data:'', GenerateImage p m sz n]
             @ drop 4 (trace (action appContext formData))
           \<and> generateImage_calls (trace (action appContext formData)) = [GenerateImage p m sz n]
           \<and> (outcome (action appContext formData) = Hangs
                \<longleftrightarrow> generateImage (imageGenerationService appContext) p m sz n = Hangs)))"
proof (cases "passes_validation appContext formData")
  case False
  with action_invalid(1) [OF False] show ?thesis
    by (simp add: generateImage_calls_def)
next
  case True
  then obtain p where v: "formData_get formData ''prompt'' = Some p" "p \<noteq> []"
    "\<not> falsy_value (catalog_get (CUSTOMER_MODEL_MAP (app_config appContext))
        (ToString (formData_get formData ''model'')))"
    by (rule passes_validationE)
  have settled: "failure_response err \<noteq> Hangs" for err
    by (cases err) (auto simp: failure_response_def json_def Let_def)
  show ?thesis
    using True unfolding action_valid [OF v]
    by (auto simp: dispatch_def generateImage_calls_def json_fixed_statuses settled
        split: completion.splits)
qed

text \<open>
  The witness: a submission that passes both guards, one stopped by the first, and the
  model id \<^verbatim>\<open>toString\<close>, which passes the second guard and is dispatched.
\<close>

theorem action_calls_generateImage_once_witness:
  "passes_validation (example_context echo_service) (example_form ''a cat'' ''false'' ''4'')
   \<and> length (generateImage_calls (trace (action (example_context echo_service)
         (example_form ''a cat'' ''false'' ''4'')))) = 1
   \<and> outcome (action (example_context echo_service) (example_form ''a cat'' ''false'' ''4''))
       \<noteq> Hangs
   \<and> \<not> passes_validation (example_context echo_service) (example_form [] ''false'' ''4'')
   \<and> generateImage_calls (trace (action (example_context echo_service)
         (example_form [] ''false'' ''4''))) = []
   \<and> passes_validation (example_context echo_service)
         [(''prompt'', ''a cat''), (''model'', ''toString'')]
   \<and> length (generateImage_calls (trace (action (example_context echo_service)
         [(''prompt'', ''a cat''), (''model'', ''toString'')]))) = 1"
  using
    action_calls_generateImage_once [of "example_context echo_service"
      "example_form ''a cat'' ''false'' ''4''"]
    action_calls_generateImage_once [of "example_context echo_service"
      "example_form [] ''false'' ''4''"]
    action_calls_generateImage_once [of "example_context echo_service"
      "[(''prompt'', ''a cat''), (''model'', ''toString'')]"]
  by (auto simp: example_defs passes_validation_def falsy_def falsy_value_def formData_get_def
      catalog_get_def ToString_def Object_prototype_keys_def)

subsection \<open>One submission in flight\<close>











end
